theory Spec2Isabelle
  imports Main "HOL-Library.Sublist"
begin

section \<open>Python values and primitives used by the three scripts\<close>

text \<open>
  The exceptions the modelled functions can raise. A function that can raise returns
  \<open>py_error + 'a\<close>, with \<open>Inl\<close> for the exception that propagates to the caller.
\<close>

datatype py_error = IndexError | KeyError | TypeError | AttributeError | InvalidVersion

text \<open>
  \<open>s.split(c)\<close> for a one-character separator: the result always has at least one
  element, and two adjacent separators give an empty token.
\<close>

fun split :: "char \<Rightarrow> string \<Rightarrow> string list" where
  "split c [] = [[]]"
| "split c (x # xs) =
     (if x = c then [] # split c xs
      else (case split c xs of
              [] \<Rightarrow> [[x]]
            | w # ws \<Rightarrow> (x # w) # ws))"

text \<open>\<open>sep.join(xs)\<close>.\<close>

fun join :: "string \<Rightarrow> string list \<Rightarrow> string" where
  "join sep [] = []"
| "join sep [x] = x"
| "join sep (x # y # ys) = x @ sep @ join sep (y # ys)"

text \<open>\<open>xs[i:j]\<close> for indices \<open>0 \<le> i\<close>, \<open>0 \<le> j\<close>: empty when \<open>j \<le> i\<close>, cut at the end of the list.\<close>

definition slice :: "'a list \<Rightarrow> nat \<Rightarrow> nat \<Rightarrow> 'a list" where
  "slice xs i j = take (j - i) (drop i xs)"

text \<open>\<open>xs.insert(i, x)\<close> for \<open>0 \<le> i\<close>: the element lands at index \<open>i\<close>, or at the end.\<close>

definition insert_at :: "nat \<Rightarrow> 'a \<Rightarrow> 'a list \<Rightarrow> 'a list" where
  "insert_at i x xs = take i xs @ x # drop i xs"

text \<open>
  \<open>xs.index(x)\<close>, the position of the first occurrence. The source calls it only under
  the guard \<open>x in xs\<close>, where it cannot raise; outside the guard the model gives
  \<open>length xs\<close>.
\<close>

definition index :: "'a list \<Rightarrow> 'a \<Rightarrow> nat" where
  "index xs x = length (takeWhile (\<lambda>y. y \<noteq> x) xs)"

section \<open>getkeyvalues.py: the name translator\<close>

text \<open>
  \<open>get_ssm_parameter_name(ami_name, include_commit)\<close>, lines 119 to 169, block by block.
  The record holds the local variables \<open>variant\<close>, \<open>arch\<close>, \<open>version\<close> and
  \<open>commit_sha\<close> as they are when line 160 is reached.
\<close>

record ami_locals =
  variant :: string
  arch :: string
  version :: string
  commit_sha :: string

text \<open>
  Lines 125 and 126: \<open>parts.insert(2, "aws")\<close> when the token at index 2 is another one.
  The caller has checked that there are at least seven tokens.
\<close>

definition ensure_aws :: "string list \<Rightarrow> string list" where
  "ensure_aws parts = (if parts ! 2 \<noteq> ''aws'' then insert_at 2 ''aws'' parts else parts)"

text \<open>Lines 129 to 139: the pair \<open>(variant, arch_index)\<close>.\<close>

definition family_boundary :: "string list \<Rightarrow> string \<times> nat" where
  "family_boundary parts =
     (if ''nvidia'' \<in> set parts then
        let nvidia_index = index parts ''nvidia''
        in (join ''-'' (slice parts 2 (nvidia_index + 1)), nvidia_index + 1)
      else if ''fips'' \<in> set parts then
        let fips_index = index parts ''fips''
        in (join ''-'' (slice parts 2 (fips_index + 1)), fips_index + 1)
      else (join ''-'' (slice parts 2 5), 5))"

text \<open>
  Lines 148 to 158: the pair \<open>(version, commit_sha)\<close> from \<open>version_parts\<close>.
  \<open>version_parts[-2]\<close> is read only when there are two elements and \<open>version_parts[-1]\<close>
  only when the list is not empty, so neither can raise.
\<close>

definition version_and_commit :: "string list \<Rightarrow> string \<times> string" where
  "version_and_commit version_parts =
     (let (version, commit_sha) =
            (if length version_parts \<ge> 2
             then (version_parts ! (length version_parts - 2), take 8 (last version_parts))
             else (''unknown'',
                   if version_parts \<noteq> [] then take 8 (last version_parts) else ''unknown''));
          version = (case version of
                       c # rest \<Rightarrow> if c = CHR ''v'' then rest else version
                     | [] \<Rightarrow> version)
      in (version, commit_sha))"

text \<open>
  Lines 120 to 158 as a whole. \<open>Inr None\<close> is the early \<open>return None\<close> of line 122, and
  \<open>Inl IndexError\<close> is \<open>parts[arch_index]\<close> of line 142 reading past the end of the token
  list.
\<close>

definition parse_ami_name :: "string \<Rightarrow> py_error + ami_locals option" where
  "parse_ami_name ami_name =
     (let parts = split CHR ''-'' ami_name in
      if length parts < 7 then Inr None
      else
        let parts = ensure_aws parts;
            (variant, arch_index) = family_boundary parts
        in
          if \<not> arch_index < length parts then Inl IndexError
          else
            let arch = parts ! arch_index;
                arch = (if arch = ''aarch64'' then ''arm64'' else arch);
                version_parts = filter (\<lambda>p. p \<noteq> ''v1'') (drop (arch_index + 1) parts);
                (version, commit_sha) = version_and_commit version_parts
            in Inr (Some \<lparr>variant = variant, arch = arch, version = version,
                           commit_sha = commit_sha\<rparr>))"

text \<open>Lines 161 to 167: the local variable \<open>version_string\<close>.\<close>

definition version_string :: "ami_locals \<Rightarrow> bool \<Rightarrow> string" where
  "version_string l include_commit =
     (if include_commit
      then (if version l \<noteq> commit_sha l then version l @ ''-'' @ commit_sha l else version l)
      else version l)"

text \<open>The whole function: the f-string of line 169 over the locals.\<close>

definition get_ssm_parameter_name :: "string \<Rightarrow> bool \<Rightarrow> py_error + string option" where
  "get_ssm_parameter_name ami_name include_commit =
     (case parse_ami_name ami_name of
        Inl e \<Rightarrow> Inl e
      | Inr None \<Rightarrow> Inr None
      | Inr (Some l) \<Rightarrow>
          Inr (Some (''aws/service/bottlerocket/'' @ variant l @ ''/'' @ arch l @ ''/''
                     @ version_string l include_commit @ ''/image_id'')))"

section \<open>comparenew.py: the comparison of two key-to-value mappings\<close>

text \<open>
  A dictionary from parameter paths to identifiers is a map \<open>string \<rightharpoonup> 'v\<close>. The values
  are compared with Python's \<open>==\<close>, which on the identifier strings (and \<open>None\<close>) the
  mappings hold is equality of values.
\<close>

record 'v mismatch =
  key :: string
  s3_value :: 'v
  ssm_value :: 'v

record 'v comparison =
  matching :: "string list"
  mismatched :: "'v mismatch list"
  only_in_s3 :: "string list"
  only_in_ssm :: "string list"

text \<open>The body of the loop of lines 76 to 89, for one key.\<close>

definition compare_key ::
  "(string \<rightharpoonup> 'v) \<Rightarrow> (string \<rightharpoonup> 'v) \<Rightarrow> 'v comparison \<Rightarrow> string \<Rightarrow> 'v comparison" where
  "compare_key s3_data ssm_data c k =
     (if k \<in> dom s3_data \<and> k \<in> dom ssm_data then
        (if the (s3_data k) = the (ssm_data k)
         then c\<lparr>matching := matching c @ [k]\<rparr>
         else c\<lparr>mismatched := mismatched c
                  @ [\<lparr>key = k, s3_value = the (s3_data k), ssm_value = the (ssm_data k)\<rparr>]\<rparr>)
      else if k \<in> dom s3_data then c\<lparr>only_in_s3 := only_in_s3 c @ [k]\<rparr>
      else c\<lparr>only_in_ssm := only_in_ssm c @ [k]\<rparr>)"

text \<open>
  \<open>all_keys\<close> is a Python set, and the order in which the loop visits it is not fixed by
  the language. \<open>iteration_order\<close> says that \<open>ks\<close> is one of the orders the loop can
  take: every key of the union once.
\<close>

definition iteration_order :: "string list \<Rightarrow> (string \<rightharpoonup> 'v) \<Rightarrow> (string \<rightharpoonup> 'v) \<Rightarrow> bool" where
  "iteration_order ks s3_data ssm_data \<longleftrightarrow>
     distinct ks \<and> set ks = dom s3_data \<union> dom ssm_data"

text \<open>
  \<open>compare_region_results(s3_data, ssm_data)\<close>, lines 65 to 91, visiting the keys in
  the order \<open>ks\<close>.
\<close>

definition compare_region_results ::
  "string list \<Rightarrow> (string \<rightharpoonup> 'v) \<Rightarrow> (string \<rightharpoonup> 'v) \<Rightarrow> 'v comparison" where
  "compare_region_results ks s3_data ssm_data =
     foldl (compare_key s3_data ssm_data)
       \<lparr>matching = [], mismatched = [], only_in_s3 = [], only_in_ssm = []\<rparr> ks"

section \<open>processresult.py: the version gate\<close>

text \<open>
  The value \<open>json.load\<close> returns: a tree of dictionaries (keys in file order), lists,
  strings, numbers (of a type \<open>'n\<close> the filter never looks into), booleans and \<open>None\<close>.
\<close>

datatype 'n json =
    JNull
  | JBool bool
  | JNum 'n
  | JStr string
  | JList "'n json list"
  | JDict "(string \<times> 'n json) list"

text \<open>
  \<open>version.parse\<close> and \<open>>=\<close> on versions come from the third-party library
  \<open>packaging\<close>. The functions below take them as parameters: \<open>vparse s\<close> is
  \<open>Some v\<close> when \<open>version.parse(s)\<close> returns \<open>v\<close> and \<open>None\<close> when it raises
  \<open>InvalidVersion\<close>, and \<open>vge a b\<close> is \<open>a >= b\<close>.

  \<open>parse_version(path)\<close>, lines 4 to 12; \<open>None\<close> is Python's \<open>None\<close>. The second-to-last
  element exists when there are two elements, and a split is never empty.
\<close>

definition parse_version :: "(string \<Rightarrow> 'v option) \<Rightarrow> string \<Rightarrow> 'v option" where
  "parse_version vparse path =
     (let parts = split CHR ''/'' path in
      if length parts \<ge> 2
      then (let ver_part = hd (split CHR ''-'' (parts ! (length parts - 2)))
            in vparse ver_part)
      else None)"

text \<open>
  The version extracted from a path, lines 5 to 7: the string \<open>ver_part\<close> that
  \<open>parse_version\<close> hands to \<open>version.parse\<close>, when the path has the two segments.
\<close>

definition ver_part :: "string \<Rightarrow> string option" where
  "ver_part path =
     (let parts = split CHR ''/'' path in
      if length parts \<ge> 2
      then Some (hd (split CHR ''-'' (parts ! (length parts - 2))))
      else None)"

text \<open>The list comprehension of \<open>filter_list\<close>, lines 17 to 19; \<open>min_ver\<close> is the variable it closes over.\<close>

definition filter_list ::
  "(string \<Rightarrow> 'v option) \<Rightarrow> ('v \<Rightarrow> 'v \<Rightarrow> bool) \<Rightarrow> 'v \<Rightarrow> 'n json list \<Rightarrow> 'n json list" where
  "filter_list vparse vge min_ver items =
     filter (\<lambda>item. case item of
                      JStr s \<Rightarrow> (case parse_version vparse s of
                                    None \<Rightarrow> False
                                  | Some parsed_ver \<Rightarrow> vge parsed_ver min_ver)
                    | _ \<Rightarrow> False) items"

text \<open>
  The list comprehension of \<open>filter_dict\<close>, lines 21 to 23. \<open>item['key']\<close> raises
  \<open>TypeError\<close> on an item that is not a dictionary and \<open>KeyError\<close> on a dictionary
  without that key; \<open>path.split\<close> raises \<open>AttributeError\<close> when the value is not a
  string. The first exception ends the comprehension.
\<close>

fun filter_dict ::
  "(string \<Rightarrow> 'v option) \<Rightarrow> ('v \<Rightarrow> 'v \<Rightarrow> bool) \<Rightarrow> 'v \<Rightarrow> 'n json list
     \<Rightarrow> py_error + 'n json list" where
  "filter_dict vparse vge min_ver [] = Inr []"
| "filter_dict vparse vge min_ver (item # items) =
     (case item of
        JDict kvs \<Rightarrow>
          (case map_of kvs ''key'' of
             None \<Rightarrow> Inl KeyError
           | Some (JStr s) \<Rightarrow>
               (let keep = (case parse_version vparse s of
                              None \<Rightarrow> False
                            | Some parsed_ver \<Rightarrow> vge parsed_ver min_ver)
                in case filter_dict vparse vge min_ver items of
                     Inl e \<Rightarrow> Inl e
                   | Inr kept \<Rightarrow> Inr (if keep then item # kept else kept))
           | Some _ \<Rightarrow> Inl AttributeError)
      | _ \<Rightarrow> Inl TypeError)"

text \<open>
  \<open>filter_versions(data, min_version)\<close>, lines 14 to 37. The Python function returns
  nothing: it assigns to \<open>data[key]\<close>, so its effect is on the object the caller passed.
  The model returns \<open>Inr\<close> of the contents of that object after the call, or \<open>Inl\<close> of
  the exception raised. \<open>filter_versions_items\<close> is the loop of lines 26 to 33 over the
  entries \<open>(k, v)\<close> of a dictionary (\<open>key, value\<close> in the source),
  \<open>filter_versions_elems\<close> the loop of lines 35 to 37 over the elements of a list. Line 15 parses \<open>min_version\<close> on every call, before the type of
  \<open>data\<close> is looked at.
\<close>

fun filter_versions ::
  "(string \<Rightarrow> 'v option) \<Rightarrow> ('v \<Rightarrow> 'v \<Rightarrow> bool) \<Rightarrow> 'n json \<Rightarrow> string \<Rightarrow> py_error + 'n json"
and filter_versions_items ::
  "(string \<Rightarrow> 'v option) \<Rightarrow> ('v \<Rightarrow> 'v \<Rightarrow> bool) \<Rightarrow> 'v \<Rightarrow> (string \<times> 'n json) list \<Rightarrow> string
     \<Rightarrow> py_error + (string \<times> 'n json) list"
and filter_versions_elems ::
  "(string \<Rightarrow> 'v option) \<Rightarrow> ('v \<Rightarrow> 'v \<Rightarrow> bool) \<Rightarrow> 'n json list \<Rightarrow> string
     \<Rightarrow> py_error + 'n json list" where
  "filter_versions vparse vge (JDict kvs) min_version =
     (case vparse min_version of
        None \<Rightarrow> Inl InvalidVersion
      | Some min_ver \<Rightarrow>
          (case filter_versions_items vparse vge min_ver kvs min_version of
             Inl e \<Rightarrow> Inl e
           | Inr kvs' \<Rightarrow> Inr (JDict kvs')))"
| "filter_versions vparse vge (JList xs) min_version =
     (case vparse min_version of
        None \<Rightarrow> Inl InvalidVersion
      | Some min_ver \<Rightarrow>
          (case filter_versions_elems vparse vge xs min_version of
             Inl e \<Rightarrow> Inl e
           | Inr xs' \<Rightarrow> Inr (JList xs')))"
| "filter_versions vparse vge data min_version =
     (case vparse min_version of
        None \<Rightarrow> Inl InvalidVersion
      | Some min_ver \<Rightarrow> Inr data)"
| "filter_versions_items vparse vge min_ver [] min_version = Inr []"
| "filter_versions_items vparse vge min_ver ((k, v) # rest) min_version =
     (case (case v of
              JList items \<Rightarrow>
                (if k \<in> set [''matching'', ''mismatched'', ''only_in_s3'', ''only_in_ssm'']
                 then Inr (JList (filter_list vparse vge min_ver items))
                 else if k = ''wrong_owner''
                 then (case filter_dict vparse vge min_ver items of
                         Inl e \<Rightarrow> Inl e
                       | Inr kept \<Rightarrow> Inr (JList kept))
                 else Inr v)
            | JDict kvs \<Rightarrow> filter_versions vparse vge (JDict kvs) min_version
            | _ \<Rightarrow> Inr v) of
        Inl e \<Rightarrow> Inl e
      | Inr v' \<Rightarrow>
          (case filter_versions_items vparse vge min_ver rest min_version of
             Inl e \<Rightarrow> Inl e
           | Inr rest' \<Rightarrow> Inr ((k, v') # rest')))"
| "filter_versions_elems vparse vge [] min_version = Inr []"
| "filter_versions_elems vparse vge (item # rest) min_version =
     (case (case item of
              JDict kvs \<Rightarrow> filter_versions vparse vge (JDict kvs) min_version
            | _ \<Rightarrow> Inr item) of
        Inl e \<Rightarrow> Inl e
      | Inr item' \<Rightarrow>
          (case filter_versions_elems vparse vge rest min_version of
             Inl e \<Rightarrow> Inl e
           | Inr rest' \<Rightarrow> Inr (item' # rest')))"

text \<open>
  \<open>main\<close>, lines 39 to 55, between the two files: \<open>comparison_results\<close> is the variable
  bound by \<open>json.load\<close> at line 46, and \<open>output_file\<close> what line 53 writes, which is that
  same variable after the call of line 49.
\<close>

record 'n main_state =
  comparison_results :: "'n json"
  output_file :: "'n json option"

definition main ::
  "(string \<Rightarrow> 'v option) \<Rightarrow> ('v \<Rightarrow> 'v \<Rightarrow> bool) \<Rightarrow> 'n json \<Rightarrow> py_error + 'n main_state" where
  "main vparse vge input_file =
     (let st = \<lparr>comparison_results = input_file, output_file = None\<rparr> in
      case filter_versions vparse vge (comparison_results st) ''1.14.3'' of
        Inl e \<Rightarrow> Inl e
      | Inr data \<Rightarrow>
          (let st = st\<lparr>comparison_results := data\<rparr>
           in Inr (st\<lparr>output_file := Some (comparison_results st)\<rparr>)))"

text \<open>
  What a call of \<open>filter_versions\<close> may change in the object it is given, as a relation
  between the contents before and after: a list stored under one of the five filtered
  keys, in a dictionary the walk reaches, may lose elements; nothing else differs.
\<close>

fun confined :: "'n json \<Rightarrow> 'n json \<Rightarrow> bool"
and confined_items :: "(string \<times> 'n json) list \<Rightarrow> (string \<times> 'n json) list \<Rightarrow> bool"
and confined_elems :: "'n json list \<Rightarrow> 'n json list \<Rightarrow> bool" where
  "confined (JDict kvs) after = (case after of JDict kvs' \<Rightarrow> confined_items kvs kvs' | _ \<Rightarrow> False)"
| "confined (JList xs) after = (case after of JList xs' \<Rightarrow> confined_elems xs xs' | _ \<Rightarrow> False)"
| "confined before after = (after = before)"
| "confined_items [] kvs' = (kvs' = [])"
| "confined_items ((k, v) # rest) kvs' =
     (case kvs' of
        [] \<Rightarrow> False
      | (k', v') # rest' \<Rightarrow>
          k' = k
          \<and> (case v of
                JList items \<Rightarrow>
                  (if k \<in> set [''matching'', ''mismatched'', ''only_in_s3'', ''only_in_ssm'',
                                ''wrong_owner'']
                   then (case v' of JList items' \<Rightarrow> subseq items' items | _ \<Rightarrow> False)
                   else v' = v)
              | JDict kvs \<Rightarrow> confined (JDict kvs) v'
              | _ \<Rightarrow> v' = v)
          \<and> confined_items rest rest')"
| "confined_elems [] xs' = (xs' = [])"
| "confined_elems (x # rest) xs' =
     (case xs' of
        [] \<Rightarrow> False
      | x' # rest' \<Rightarrow>
          (case x of JDict kvs \<Rightarrow> confined (JDict kvs) x' | _ \<Rightarrow> x' = x)
          \<and> confined_elems rest rest')"

subsection \<open>Release numbers\<close>

text \<open>
  Modelled from the spec: \<open>packaging.version\<close>, the library behind \<open>version.parse\<close> and
  the order of versions, is not among the sources. The spec asks for "standard
  dotted-release-number semantics (numeric segment-wise comparison, e.g.
  \<open>1.14.3 < 1.14.10\<close>); pre-release/build metadata suffixes are ignored for ordering
  purposes". In the model a version string is a release number, one or more groups of
  decimal digits separated by dots, after an optional leading \<open>v\<close> and before an
  optional suffix. The suffix starts at the first character that is neither a digit nor
  a dot (\<open>1.14.10rc1\<close>, \<open>1.14.10+build5\<close>), a dot just before it being its separator
  (\<open>1.14.10.dev0\<close>). A string parses to the list of the values of its groups, the
  suffix being left out, and a string with no release number is not a version. Two
  release numbers are compared segment by segment as numbers, from the left, a missing
  segment counting as zero.
\<close>

definition is_digit :: "char \<Rightarrow> bool" where
  "is_digit c \<longleftrightarrow> c \<in> set ''0123456789''"

definition decimal :: "string \<Rightarrow> nat" where
  "decimal ds = foldl (\<lambda>n c. 10 * n + (of_char c - 48)) 0 ds"

definition release_part :: "string \<Rightarrow> string" where
  "release_part s =
     (let body = (case s of [] \<Rightarrow> [] | c # cs \<Rightarrow> if c = CHR ''v'' then cs else s);
          release = takeWhile (\<lambda>c. is_digit c \<or> c = CHR ''.'') body;
          suffix = dropWhile (\<lambda>c. is_digit c \<or> c = CHR ''.'') body
      in if suffix \<noteq> [] \<and> release \<noteq> [] \<and> last release = CHR ''.''
         then butlast release
         else release)"

definition version_parse :: "string \<Rightarrow> nat list option" where
  "version_parse s =
     (let segments = split CHR ''.'' (release_part s) in
      if list_all (\<lambda>seg. seg \<noteq> [] \<and> list_all is_digit seg) segments
      then Some (map decimal segments)
      else None)"

fun version_ge :: "nat list \<Rightarrow> nat list \<Rightarrow> bool" where
  "version_ge [] [] = True"
| "version_ge (a # as) [] = True"
| "version_ge [] (b # bs) = (b = 0 \<and> version_ge [] bs)"
| "version_ge (a # as) (b # bs) = (a > b \<or> (a = b \<and> version_ge as bs))"

section \<open>Properties of the name translator\<close>

lemmas translator_defs = get_ssm_parameter_name_def parse_ami_name_def version_string_def
  ensure_aws_def family_boundary_def version_and_commit_def insert_at_def slice_def index_def

lemma index_less: "x \<in> set xs \<Longrightarrow> index xs x < length xs"
  by (induction xs) (auto simp: index_def)

lemma nth_index: "x \<in> set xs \<Longrightarrow> xs ! index xs x = x"
  by (induction xs) (auto simp: index_def)

lemma set_insert_at: "set (insert_at i x xs) = insert x (set xs)"
proof -
  have "set (take i xs) \<union> set (drop i xs) = set xs"
    by (metis append_take_drop_id set_append)
  then show ?thesis by (auto simp: insert_at_def)
qed

lemma set_ensure_aws: "x \<noteq> ''aws'' \<Longrightarrow> x \<in> set (ensure_aws parts) \<longleftrightarrow> x \<in> set parts"
  by (simp add: ensure_aws_def set_insert_at)

text \<open>
  The translator raises nothing but the \<open>IndexError\<close> of line 142, and raises it exactly
  when the architecture index that lines 129 to 139 compute lies past the last token.
\<close>

lemma get_ssm_parameter_name_raises_iff:
  "get_ssm_parameter_name name include_commit = Inl e \<longleftrightarrow>
     e = IndexError \<and> 7 \<le> length (split CHR ''-'' name)
     \<and> \<not> snd (family_boundary (ensure_aws (split CHR ''-'' name)))
           < length (ensure_aws (split CHR ''-'' name))"
  by (auto simp: get_ssm_parameter_name_def parse_ami_name_def Let_def
           split: prod.splits sum.splits option.splits)

lemma get_ssm_parameter_name_short:
  "length (split CHR ''-'' name) < 7 \<Longrightarrow> get_ssm_parameter_name name include_commit = Inr None"
  by (simp add: get_ssm_parameter_name_def parse_ami_name_def)

text \<open>
  Claim C3 says that the translator never raises, and names the case where \<open>nvidia\<close> or
  \<open>fips\<close> is the final token as one that still yields a path. On a name of seven tokens
  that ends in \<open>nvidia\<close> (or in \<open>fips\<close>) the code raises \<open>IndexError\<close>: the
  architecture is read one position after the tag, where there is no token.
\<close>

theorem tag_as_final_token_raises:
  "get_ssm_parameter_name ''bottlerocket-aws-k8s-1.24-x86_64-v1.14.3-nvidia'' True
     = Inl IndexError
   \<and> get_ssm_parameter_name ''bottlerocket-aws-k8s-1.24-x86_64-v1.14.3-nvidia'' False
     = Inl IndexError
   \<and> get_ssm_parameter_name ''bottlerocket-aws-k8s-1.24-x86_64-v1.14.3-fips'' True
     = Inl IndexError"
  by (simp add: translator_defs)

text \<open>
  Claim C6: the name \<open>bottlerocket-aws-ecs-1-x86_64-v1.14.3-0a1b2c3d4e\<close> translates to
  \<open>aws/service/bottlerocket/aws-ecs-1/x86_64/1.14.3-0a1b2c3d/image_id\<close> with the commit
  (cut to eight characters) and to \<open>aws/service/bottlerocket/aws-ecs-1/x86_64/1.14.3/image_id\<close>
  without it.
\<close>

theorem end_to_end_example:
  "get_ssm_parameter_name ''bottlerocket-aws-ecs-1-x86_64-v1.14.3-0a1b2c3d4e'' True
     = Inr (Some ''aws/service/bottlerocket/aws-ecs-1/x86_64/1.14.3-0a1b2c3d/image_id'')
   \<and> get_ssm_parameter_name ''bottlerocket-aws-ecs-1-x86_64-v1.14.3-0a1b2c3d4e'' False
     = Inr (Some ''aws/service/bottlerocket/aws-ecs-1/x86_64/1.14.3/image_id'')"
  by (simp add: translator_defs)

text \<open>
  Claim C7: when the tokens of a name hold both \<open>nvidia\<close> and \<open>fips\<close> (and there are the
  seven tokens the translator asks for), the family boundary is the first \<open>nvidia\<close>:
  the family is the tokens from index 2 up to and including it, and the architecture is
  read from the token after it, wherever \<open>fips\<close> stands. When \<open>nvidia\<close> is the last
  token that read raises \<open>IndexError\<close>. The tokens are those after the \<open>aws\<close> correction.
\<close>

theorem nvidia_takes_precedence_over_fips:
  assumes "7 \<le> length (split CHR ''-'' name)"
    and "''nvidia'' \<in> set (split CHR ''-'' name)"
    and "''fips'' \<in> set (split CHR ''-'' name)"
  shows "let parts = ensure_aws (split CHR ''-'' name);
             i = index parts ''nvidia''
         in i < length parts \<and> parts ! i = ''nvidia''
            \<and> family_boundary parts = (join ''-'' (slice parts 2 (i + 1)), i + 1)
            \<and> (if i + 1 < length parts
               then (\<exists>l. parse_ami_name name = Inr (Some l)
                      \<and> variant l = join ''-'' (slice parts 2 (i + 1))
                      \<and> arch l = (if parts ! (i + 1) = ''aarch64'' then ''arm64''
                                  else parts ! (i + 1))
                      \<and> get_ssm_parameter_name name include_commit =
                          Inr (Some (''aws/service/bottlerocket/''
                                     @ join ''-'' (slice parts 2 (i + 1)) @ ''/''
                                     @ (if parts ! (i + 1) = ''aarch64'' then ''arm64''
                                        else parts ! (i + 1)) @ ''/''
                                     @ version_string l include_commit @ ''/image_id'')))
               else get_ssm_parameter_name name include_commit = Inl IndexError)"
proof -
  define parts where "parts = ensure_aws (split CHR ''-'' name)"
  define i where "i = index parts ''nvidia''"
  have mem: "''nvidia'' \<in> set parts"
    using assms(2) by (simp add: parts_def set_ensure_aws)
  have i: "i < length parts" "parts ! i = ''nvidia''"
    using mem by (simp_all add: i_def index_less nth_index)
  have fb: "family_boundary parts = (join ''-'' (slice parts 2 (i + 1)), i + 1)"
    using mem by (simp add: family_boundary_def i_def Let_def)
  have len: "\<not> length (split CHR ''-'' name) < 7"
    using assms(1) by simp
  have p: "parse_ami_name name =
      (if \<not> i + 1 < length parts then Inl IndexError
       else Inr (Some \<lparr>variant = join ''-'' (slice parts 2 (i + 1)),
                        arch = (if parts ! (i + 1) = ''aarch64'' then ''arm64''
                                else parts ! (i + 1)),
                        version = fst (version_and_commit
                                    (filter (\<lambda>p. p \<noteq> ''v1'') (drop (i + 1 + 1) parts))),
                        commit_sha = snd (version_and_commit
                                    (filter (\<lambda>p. p \<noteq> ''v1'') (drop (i + 1 + 1) parts)))\<rparr>))"
    unfolding parse_ami_name_def using len
    by (simp add: parts_def[symmetric] fb Let_def split: prod.splits)
  show ?thesis
    unfolding Let_def parts_def[symmetric] i_def[symmetric]
    using i fb p by (simp add: get_ssm_parameter_name_def)
qed

theorem nvidia_takes_precedence_over_fips_witness:
  "7 \<le> length (split CHR ''-''
           ''bottlerocket-aws-k8s-1.24-fips-nvidia-x86_64-v1.24.3-abcdef0123'')
   \<and> ''nvidia'' \<in> set (split CHR ''-''
           ''bottlerocket-aws-k8s-1.24-fips-nvidia-x86_64-v1.24.3-abcdef0123'')
   \<and> ''fips'' \<in> set (split CHR ''-''
           ''bottlerocket-aws-k8s-1.24-fips-nvidia-x86_64-v1.24.3-abcdef0123'')
   \<and> get_ssm_parameter_name
         ''bottlerocket-aws-k8s-1.24-fips-nvidia-x86_64-v1.24.3-abcdef0123'' True
       = Inr (Some ''aws/service/bottlerocket/aws-k8s-1.24-fips-nvidia/x86_64/1.24.3-abcdef01/image_id'')"
  using nvidia_takes_precedence_over_fips
          [of "''bottlerocket-aws-k8s-1.24-fips-nvidia-x86_64-v1.24.3-abcdef0123''" True]
  by (simp add: translator_defs)

text \<open>
  Claim C8: when a name translates, the path with the commit and the path without it
  are the same text up to the version string, which stands between the architecture
  and the closing \<open>image_id\<close>: one has \<open>version-commit_sha\<close> there (or \<open>version\<close> alone
  when the two are equal), the other \<open>version\<close>. When the parsed version equals the
  commit prefix the two paths are equal.
\<close>

theorem commit_qualification:
  assumes "get_ssm_parameter_name name include_commit = Inr (Some p)"
  shows "\<exists>l. parse_ami_name name = Inr (Some l)
     \<and> get_ssm_parameter_name name True =
         Inr (Some (''aws/service/bottlerocket/'' @ variant l @ ''/'' @ arch l @ ''/''
                    @ (if version l \<noteq> commit_sha l then version l @ ''-'' @ commit_sha l
                       else version l) @ ''/image_id''))
     \<and> get_ssm_parameter_name name False =
         Inr (Some (''aws/service/bottlerocket/'' @ variant l @ ''/'' @ arch l @ ''/''
                    @ version l @ ''/image_id''))
     \<and> (version l = commit_sha l \<longrightarrow>
          get_ssm_parameter_name name True = get_ssm_parameter_name name False)"
proof -
  from assms obtain l where l: "parse_ami_name name = Inr (Some l)"
    by (auto simp: get_ssm_parameter_name_def split: sum.splits option.splits)
  then show ?thesis
    by (auto simp: get_ssm_parameter_name_def version_string_def)
qed

theorem commit_qualification_witness:
  "get_ssm_parameter_name ''bottlerocket-aws-ecs-1-x86_64-v1.14.3-0a1b2c3d4e'' True
     = Inr (Some ''aws/service/bottlerocket/aws-ecs-1/x86_64/1.14.3-0a1b2c3d/image_id'')
   \<and> (\<exists>l. parse_ami_name ''bottlerocket-aws-ecs-1-x86_64-v1.14.3-0a1b2c3d4e'' = Inr (Some l)
         \<and> get_ssm_parameter_name ''bottlerocket-aws-ecs-1-x86_64-v1.14.3-0a1b2c3d4e'' False =
             Inr (Some (''aws/service/bottlerocket/'' @ variant l @ ''/'' @ arch l @ ''/''
                        @ version l @ ''/image_id'')))"
proof -
  have h: "get_ssm_parameter_name ''bottlerocket-aws-ecs-1-x86_64-v1.14.3-0a1b2c3d4e'' True
     = Inr (Some ''aws/service/bottlerocket/aws-ecs-1/x86_64/1.14.3-0a1b2c3d/image_id'')"
    by (simp add: translator_defs)
  from commit_qualification [OF h] h show ?thesis
    by blast
qed

text \<open>
  Claim C10: the length check of line 121 comes before the \<open>aws\<close> correction of line
  125. A name of exactly six tokens whose token at index 2 is not \<open>aws\<close> translates to
  \<open>None\<close>, although the insertion would have given seven tokens.
\<close>

theorem six_tokens_is_none:
  assumes "length (split CHR ''-'' name) = 6"
    and "split CHR ''-'' name ! 2 \<noteq> ''aws''"
  shows "get_ssm_parameter_name name include_commit = Inr None
         \<and> length (ensure_aws (split CHR ''-'' name)) = 7"
  using assms by (simp add: get_ssm_parameter_name_def parse_ami_name_def ensure_aws_def insert_at_def)

theorem six_tokens_is_none_witness:
  "length (split CHR ''-'' ''bottlerocket-ecs-1-x86_64-v1.14.3-0a1b2c3d'') = 6
   \<and> split CHR ''-'' ''bottlerocket-ecs-1-x86_64-v1.14.3-0a1b2c3d'' ! 2 \<noteq> ''aws''
   \<and> get_ssm_parameter_name ''bottlerocket-ecs-1-x86_64-v1.14.3-0a1b2c3d'' True = Inr None
   \<and> length (ensure_aws (split CHR ''-'' ''bottlerocket-ecs-1-x86_64-v1.14.3-0a1b2c3d'')) = 7"
  using six_tokens_is_none [of "''bottlerocket-ecs-1-x86_64-v1.14.3-0a1b2c3d''" True]
  by simp

section \<open>Properties of the comparison\<close>

text \<open>The loop, started from any intermediate result, appends to each list the keys of its case.\<close>

lemma foldl_compare_key:
  "foldl (compare_key l r) c ks =
     \<lparr>matching = matching c @ filter (\<lambda>k. k \<in> dom l \<and> k \<in> dom r \<and> l k = r k) ks,
      mismatched = mismatched c
        @ map (\<lambda>k. \<lparr>key = k, s3_value = the (l k), ssm_value = the (r k)\<rparr>)
            (filter (\<lambda>k. k \<in> dom l \<and> k \<in> dom r \<and> l k \<noteq> r k) ks),
      only_in_s3 = only_in_s3 c @ filter (\<lambda>k. k \<in> dom l \<and> k \<notin> dom r) ks,
      only_in_ssm = only_in_ssm c @ filter (\<lambda>k. k \<notin> dom l) ks\<rparr>"
proof (induction ks arbitrary: c)
  case Nil
  show ?case by simp
next
  case (Cons k ks)
  show ?case
    unfolding foldl_Cons Cons.IH
    by (auto simp: compare_key_def)
qed

lemma compare_region_results_eq:
  "compare_region_results ks l r =
     \<lparr>matching = filter (\<lambda>k. k \<in> dom l \<and> k \<in> dom r \<and> l k = r k) ks,
      mismatched = map (\<lambda>k. \<lparr>key = k, s3_value = the (l k), ssm_value = the (r k)\<rparr>)
            (filter (\<lambda>k. k \<in> dom l \<and> k \<in> dom r \<and> l k \<noteq> r k) ks),
      only_in_s3 = filter (\<lambda>k. k \<in> dom l \<and> k \<notin> dom r) ks,
      only_in_ssm = filter (\<lambda>k. k \<notin> dom l) ks\<rparr>"
  by (simp add: compare_region_results_def foldl_compare_key)

lemma count_list_filter_distinct:
  "distinct ks \<Longrightarrow> count_list (filter P ks) k = (if k \<in> set ks \<and> P k then 1 else 0)"
  by (induction ks) auto

text \<open>
  Claim C4: whatever order the loop visits the keys in, a key \<open>k\<close> of the union is in
  \<open>matching\<close> iff both mappings have it with equal values, in \<open>mismatched\<close> iff both have
  it with different values, in \<open>only_in_s3\<close> iff only the left one has it and in
  \<open>only_in_ssm\<close> iff only the right one has it; every mismatched entry records the two
  values of its key; and \<open>k\<close> occurs exactly once in the four lists taken together.
\<close>

theorem compare_partition:
  assumes "iteration_order ks left right" and "k \<in> dom left \<union> dom right"
  shows "let c = compare_region_results ks left right in
         (k \<in> set (matching c) \<longleftrightarrow> k \<in> dom left \<and> k \<in> dom right \<and> left k = right k)
       \<and> (k \<in> key ` set (mismatched c) \<longleftrightarrow> k \<in> dom left \<and> k \<in> dom right \<and> left k \<noteq> right k)
       \<and> (\<forall>m \<in> set (mismatched c).
             left (key m) = Some (s3_value m) \<and> right (key m) = Some (ssm_value m))
       \<and> (k \<in> set (only_in_s3 c) \<longleftrightarrow> k \<in> dom left \<and> k \<notin> dom right)
       \<and> (k \<in> set (only_in_ssm c) \<longleftrightarrow> k \<notin> dom left \<and> k \<in> dom right)
       \<and> count_list (matching c @ map key (mismatched c) @ only_in_s3 c @ only_in_ssm c) k = 1"
proof -
  have d: "distinct ks" and s: "set ks = dom left \<union> dom right"
    using assms(1) by (simp_all add: iteration_order_def)
  have k: "k \<in> set ks" using assms(2) s by simp
  have 1: "k \<in> set (matching (compare_region_results ks left right))
             \<longleftrightarrow> k \<in> dom left \<and> k \<in> dom right \<and> left k = right k"
    using k by (simp add: compare_region_results_eq)
  have 2: "k \<in> key ` set (mismatched (compare_region_results ks left right))
             \<longleftrightarrow> k \<in> dom left \<and> k \<in> dom right \<and> left k \<noteq> right k"
    using k by (auto simp: compare_region_results_eq image_iff)
  have 3: "\<forall>m \<in> set (mismatched (compare_region_results ks left right)).
             left (key m) = Some (s3_value m) \<and> right (key m) = Some (ssm_value m)"
    by (auto simp: compare_region_results_eq)
  have 4: "k \<in> set (only_in_s3 (compare_region_results ks left right))
             \<longleftrightarrow> k \<in> dom left \<and> k \<notin> dom right"
    using k by (simp add: compare_region_results_eq)
  have 5: "k \<in> set (only_in_ssm (compare_region_results ks left right))
             \<longleftrightarrow> k \<notin> dom left \<and> k \<in> dom right"
    using k s by (auto simp: compare_region_results_eq)
  have 6: "count_list (matching (compare_region_results ks left right)
              @ map key (mismatched (compare_region_results ks left right))
              @ only_in_s3 (compare_region_results ks left right)
              @ only_in_ssm (compare_region_results ks left right)) k = 1"
    using k d by (simp add: compare_region_results_eq comp_def count_list_filter_distinct)
  show ?thesis
    unfolding Let_def using 1 2 3 4 5 6 by blast
qed

theorem compare_partition_witness:
  "iteration_order [''d'', ''b'', ''a'', ''c'']
      [''a'' \<mapsto> ''ami-1'', ''b'' \<mapsto> ''ami-2'', ''c'' \<mapsto> ''ami-3'']
      [''a'' \<mapsto> ''ami-1'', ''b'' \<mapsto> ''ami-9'', ''d'' \<mapsto> ''ami-4'']
   \<and> ''b'' \<in> dom [''a'' \<mapsto> ''ami-1'', ''b'' \<mapsto> ''ami-2'', ''c'' \<mapsto> ''ami-3'']
            \<union> dom [''a'' \<mapsto> ''ami-1'', ''b'' \<mapsto> ''ami-9'', ''d'' \<mapsto> ''ami-4'']
   \<and> compare_region_results [''d'', ''b'', ''a'', ''c'']
      [''a'' \<mapsto> ''ami-1'', ''b'' \<mapsto> ''ami-2'', ''c'' \<mapsto> ''ami-3'']
      [''a'' \<mapsto> ''ami-1'', ''b'' \<mapsto> ''ami-9'', ''d'' \<mapsto> ''ami-4'']
     = \<lparr>matching = [''a''],
        mismatched = [\<lparr>key = ''b'', s3_value = ''ami-2'', ssm_value = ''ami-9''\<rparr>],
        only_in_s3 = [''c''], only_in_ssm = [''d'']\<rparr>"
proof -
  let ?l = "[''a'' \<mapsto> ''ami-1'', ''b'' \<mapsto> ''ami-2'', ''c'' \<mapsto> ''ami-3'']"
  let ?r = "[''a'' \<mapsto> ''ami-1'', ''b'' \<mapsto> ''ami-9'', ''d'' \<mapsto> ''ami-4'']"
  have h: "iteration_order [''d'', ''b'', ''a'', ''c''] ?l ?r"
    by (auto simp: iteration_order_def)
  have k: "''b'' \<in> dom ?l \<union> dom ?r" by simp
  have e: "compare_region_results [''d'', ''b'', ''a'', ''c''] ?l ?r
     = \<lparr>matching = [''a''],
        mismatched = [\<lparr>key = ''b'', s3_value = ''ami-2'', ssm_value = ''ami-9''\<rparr>],
        only_in_s3 = [''c''], only_in_ssm = [''d'']\<rparr>"
    by (simp add: compare_region_results_def compare_key_def)
  from compare_partition [OF h k] h k e show ?thesis by simp
qed

text \<open>
  Claim C5: a mapping compared with itself has no mismatched entry, nothing only on one
  side, and a \<open>matching\<close> list that holds exactly its keys, each once.
\<close>

theorem compare_with_itself:
  assumes "iteration_order ks m m"
  shows "let c = compare_region_results ks m m in
         mismatched c = [] \<and> only_in_s3 c = [] \<and> only_in_ssm c = []
         \<and> set (matching c) = dom m \<and> distinct (matching c)"
proof -
  have d: "distinct ks" and s: "set ks = dom m"
    using assms by (simp_all add: iteration_order_def)
  have f: "filter (\<lambda>k. k \<in> dom m) ks = ks" "filter (\<lambda>k. k \<notin> dom m) ks = []"
    using s by (simp_all add: filter_id_conv filter_empty_conv)
  show ?thesis
    unfolding Let_def compare_region_results_eq using d s f by simp
qed

theorem compare_with_itself_witness:
  "iteration_order [''b'', ''a''] [''a'' \<mapsto> ''ami-1'', ''b'' \<mapsto> ''ami-2'']
      [''a'' \<mapsto> ''ami-1'', ''b'' \<mapsto> ''ami-2'']
   \<and> compare_region_results [''b'', ''a''] [''a'' \<mapsto> ''ami-1'', ''b'' \<mapsto> ''ami-2'']
        [''a'' \<mapsto> ''ami-1'', ''b'' \<mapsto> ''ami-2'']
       = \<lparr>matching = [''b'', ''a''], mismatched = [], only_in_s3 = [], only_in_ssm = []\<rparr>"
proof -
  let ?m = "[''a'' \<mapsto> ''ami-1'', ''b'' \<mapsto> ''ami-2'']"
  have h: "iteration_order [''b'', ''a''] ?m ?m"
    by (auto simp: iteration_order_def)
  have e: "compare_region_results [''b'', ''a''] ?m ?m
       = \<lparr>matching = [''b'', ''a''], mismatched = [], only_in_s3 = [], only_in_ssm = []\<rparr>"
    by (simp add: compare_region_results_def compare_key_def)
  from compare_with_itself [OF h] h e show ?thesis by simp
qed

section \<open>Properties of the version gate\<close>

lemmas gate_defs = filter_list_def parse_version_def version_parse_def release_part_def
  is_digit_def decimal_def

lemma filter_dict_subseq:
  "filter_dict vp ge m items = Inr kept \<Longrightarrow> subseq kept items"
proof (induction items arbitrary: kept)
  case Nil
  then show ?case by simp
next
  case (Cons item items)
  then show ?case
    by (auto split: json.splits option.splits sum.splits if_splits simp: Let_def)
qed

lemma confined_filter_versions:
  "filter_versions (vp :: string \<Rightarrow> 'v option) ge (d :: 'n json) mv = Inr d' \<Longrightarrow> confined d d'"
  "filter_versions_items (vp :: string \<Rightarrow> 'v option) ge m (kvs :: (string \<times> 'n json) list) mv = Inr kvs'
     \<Longrightarrow> confined_items kvs kvs'"
  "filter_versions_elems (vp :: string \<Rightarrow> 'v option) ge (xs :: 'n json list) mv = Inr xs'
     \<Longrightarrow> confined_elems xs xs'"
proof (induction vp ge d mv and vp ge m kvs mv and vp ge xs mv
       arbitrary: d' and kvs' and xs'
       rule: filter_versions_filter_versions_items_filter_versions_elems.induct)
  case (5 vparse vge min_ver k v rest min_version kvs')
  let ?step = "case v of
              JList items \<Rightarrow>
                (if k \<in> set [''matching'', ''mismatched'', ''only_in_s3'', ''only_in_ssm'']
                 then Inr (JList (filter_list vparse vge min_ver items))
                 else if k = ''wrong_owner''
                 then (case filter_dict vparse vge min_ver items of
                         Inl e \<Rightarrow> Inl e
                       | Inr kept \<Rightarrow> Inr (JList kept))
                 else Inr v)
            | JDict kvs \<Rightarrow> filter_versions vparse vge (JDict kvs) min_version
            | _ \<Rightarrow> Inr v"
  from "5.prems" obtain v' rest' where
    v': "?step = Inr v'" and
    rest': "filter_versions_items vparse vge min_ver rest min_version = Inr rest'" and
    kvs': "kvs' = (k, v') # rest'"
    by (auto split: sum.splits)
  have r: "confined_items rest rest'"
    using "5.IH"(2) [OF v' rest'] .
  have c: "case v of
             JList items \<Rightarrow>
               (if k \<in> set [''matching'', ''mismatched'', ''only_in_s3'', ''only_in_ssm'',
                             ''wrong_owner'']
                then (case v' of JList items' \<Rightarrow> subseq items' items | _ \<Rightarrow> False)
                else v' = v)
           | JDict kvs \<Rightarrow> confined (JDict kvs) v'
           | _ \<Rightarrow> v' = v"
  proof (cases v)
    case (JDict x6)
    with v' have "filter_versions vparse vge (JDict x6) min_version = Inr v'"
      by simp
    from "5.IH"(1) [OF JDict this] JDict show ?thesis
      by simp
  next
    case (JList items)
    with v' show ?thesis
      by (auto split: if_splits sum.splits simp: filter_list_def filter_dict_subseq)
  qed (use v' in auto)
  show ?case
    unfolding kvs' using r c by simp
next
  case (7 vparse vge item rest min_version xs')
  let ?step = "case item of
              JDict kvs \<Rightarrow> filter_versions vparse vge (JDict kvs) min_version
            | _ \<Rightarrow> Inr item"
  from "7.prems" obtain item' rest' where
    item': "?step = Inr item'" and
    rest': "filter_versions_elems vparse vge rest min_version = Inr rest'" and
    xs': "xs' = item' # rest'"
    by (auto split: sum.splits)
  have r: "confined_elems rest rest'"
    using "7.IH"(2) [OF item' rest'] .
  have c: "case item of JDict kvs \<Rightarrow> confined (JDict kvs) item' | _ \<Rightarrow> item' = item"
  proof (cases item)
    case (JDict x6)
    with item' have "filter_versions vparse vge (JDict x6) min_version = Inr item'"
      by simp
    from "7.IH"(1) [OF JDict this] JDict show ?thesis
      by simp
  qed (use item' in auto)
  show ?case
    unfolding xs' using r c by simp
qed (auto split: option.splits sum.splits)

text \<open>
  \<open>main\<close> writes the variable it passed to \<open>filter_versions\<close>: the output file is the
  input object after the call.
\<close>

lemma main_writes_its_input:
  "main vp ge input_file = Inr st \<Longrightarrow>
     output_file st = Some (comparison_results st)
     \<and> filter_versions vp ge input_file ''1.14.3'' = Inr (comparison_results st)"
  by (auto simp: main_def Let_def split: sum.splits)

lemma filter_list_drops_dictionaries:
  "filter_list vp ge m (JDict kvs # items) = filter_list vp ge m items"
  by (simp add: filter_list_def)

lemma filter_list_drops_unparseable:
  "parse_version vp path = None \<Longrightarrow>
     filter_list vp ge m (JStr path # items) = filter_list vp ge m items"
  by (simp add: filter_list_def)

text \<open>
  Claim C1 says that the entries of a \<open>mismatched\<close> list are kept when the version in
  their \<open>key\<close> field is at least the minimum. The code sends \<open>mismatched\<close> through
  \<open>filter_list\<close>, which keeps strings only, so an entry \<open>{key, s3_value, ssm_value}\<close>
  is dropped whatever its version: here the version is \<open>1.14.10\<close> and the minimum
  \<open>1.14.3\<close>. The same list under the key \<open>wrong_owner\<close> goes through \<open>filter_dict\<close>
  and keeps the entry.
\<close>

theorem mismatched_entries_all_dropped:
  "filter_versions version_parse version_ge
     (JDict [(''mismatched'',
        JList [JDict [(''key'', JStr ''aws/service/bottlerocket/aws-ecs-1/x86_64/1.14.10/image_id''),
                      (''s3_value'', JStr ''ami-0aaa''),
                      (''ssm_value'', JStr ''ami-0bbb'')]])] :: int json) ''1.14.3''
   = Inr (JDict [(''mismatched'', JList [])])
   \<and> filter_versions version_parse version_ge
     (JDict [(''wrong_owner'',
        JList [JDict [(''key'', JStr ''aws/service/bottlerocket/aws-ecs-1/x86_64/1.14.10/image_id''),
                      (''s3_value'', JStr ''ami-0aaa''),
                      (''ssm_value'', JStr ''ami-0bbb'')]])] :: int json) ''1.14.3''
   = Inr (JDict [(''wrong_owner'',
        JList [JDict [(''key'', JStr ''aws/service/bottlerocket/aws-ecs-1/x86_64/1.14.10/image_id''),
                      (''s3_value'', JStr ''ami-0aaa''),
                      (''ssm_value'', JStr ''ami-0bbb'')]])])"
  by (simp add: gate_defs)

text \<open>
  Claim C2 says that filtering leaves the structure it is given unchanged. It does not:
  \<open>filter_versions\<close> assigns the filtered lists into its argument, and \<open>main\<close> then
  writes that same variable. On a result with an entry of version \<open>1.14.2\<close> the
  variable \<open>comparison_results\<close> differs after the call from what was loaded.
\<close>

theorem main_rewrites_its_input:
  "main version_parse version_ge
     (JDict [(''by_region'',
        JDict [(''us-west-2'',
          JDict [(''matching'',
                  JList [JStr ''aws/service/bottlerocket/aws-ecs-1/x86_64/1.14.2/image_id'',
                         JStr ''aws/service/bottlerocket/aws-ecs-1/x86_64/1.14.10/image_id'']),
                 (''mismatched'', JList []),
                 (''only_in_s3'', JList []),
                 (''only_in_ssm'', JList [])])]),
       (''summary'', JDict [(''total_matching'', JNum (2::int))])])
   = Inr \<lparr>comparison_results =
       JDict [(''by_region'',
        JDict [(''us-west-2'',
          JDict [(''matching'',
                  JList [JStr ''aws/service/bottlerocket/aws-ecs-1/x86_64/1.14.10/image_id'']),
                 (''mismatched'', JList []),
                 (''only_in_s3'', JList []),
                 (''only_in_ssm'', JList [])])]),
       (''summary'', JDict [(''total_matching'', JNum 2)])],
        output_file = Some (
       JDict [(''by_region'',
        JDict [(''us-west-2'',
          JDict [(''matching'',
                  JList [JStr ''aws/service/bottlerocket/aws-ecs-1/x86_64/1.14.10/image_id'']),
                 (''mismatched'', JList []),
                 (''only_in_s3'', JList []),
                 (''only_in_ssm'', JList [])])]),
       (''summary'', JDict [(''total_matching'', JNum 2)])])\<rparr>
  \<and> JDict [(''by_region'',
        JDict [(''us-west-2'',
          JDict [(''matching'',
                  JList [JStr ''aws/service/bottlerocket/aws-ecs-1/x86_64/1.14.10/image_id'']),
                 (''mismatched'', JList []),
                 (''only_in_s3'', JList []),
                 (''only_in_ssm'', JList [])])]),
       (''summary'', JDict [(''total_matching'', JNum (2::int))])]
   \<noteq> JDict [(''by_region'',
        JDict [(''us-west-2'',
          JDict [(''matching'',
                  JList [JStr ''aws/service/bottlerocket/aws-ecs-1/x86_64/1.14.2/image_id'',
                         JStr ''aws/service/bottlerocket/aws-ecs-1/x86_64/1.14.10/image_id'']),
                 (''mismatched'', JList []),
                 (''only_in_s3'', JList []),
                 (''only_in_ssm'', JList [])])]),
       (''summary'', JDict [(''total_matching'', JNum 2)])]"
  by (simp add: main_def gate_defs)

text \<open>
  Claim C2 as amended: \<open>filter_versions\<close> rewrites its argument in place, and what it
  changes is confined to the lists stored under \<open>matching\<close>, \<open>mismatched\<close>,
  \<open>only_in_s3\<close>, \<open>only_in_ssm\<close> and \<open>wrong_owner\<close> in the dictionaries it reaches, each
  of which becomes a sub-list of itself; every dictionary keeps its keys in their order
  and every other value is unchanged.
\<close>

theorem filter_versions_confined:
  assumes "filter_versions vparse vge data min_version = Inr data'"
  shows "confined data data'"
  using assms by (rule confined_filter_versions(1))

theorem filter_versions_confined_witness:
  "filter_versions version_parse version_ge
     (JDict [(''matching'',
        JList [JStr ''aws/service/bottlerocket/aws-ecs-1/x86_64/1.14.2/image_id'',
               JStr ''aws/service/bottlerocket/aws-ecs-1/x86_64/1.14.10/image_id'']),
             (''summary'', JDict [(''total_matching'', JNum (2::int))])]) ''1.14.3''
   = Inr (JDict [(''matching'',
        JList [JStr ''aws/service/bottlerocket/aws-ecs-1/x86_64/1.14.10/image_id'']),
             (''summary'', JDict [(''total_matching'', JNum 2)])])
   \<and> confined
     (JDict [(''matching'',
        JList [JStr ''aws/service/bottlerocket/aws-ecs-1/x86_64/1.14.2/image_id'',
               JStr ''aws/service/bottlerocket/aws-ecs-1/x86_64/1.14.10/image_id'']),
             (''summary'', JDict [(''total_matching'', JNum (2::int))])])
     (JDict [(''matching'',
        JList [JStr ''aws/service/bottlerocket/aws-ecs-1/x86_64/1.14.10/image_id'']),
             (''summary'', JDict [(''total_matching'', JNum 2)])])"
proof -
  have h: "filter_versions version_parse version_ge
     (JDict [(''matching'',
        JList [JStr ''aws/service/bottlerocket/aws-ecs-1/x86_64/1.14.2/image_id'',
               JStr ''aws/service/bottlerocket/aws-ecs-1/x86_64/1.14.10/image_id'']),
             (''summary'', JDict [(''total_matching'', JNum (2::int))])]) ''1.14.3''
   = Inr (JDict [(''matching'',
        JList [JStr ''aws/service/bottlerocket/aws-ecs-1/x86_64/1.14.10/image_id'']),
             (''summary'', JDict [(''total_matching'', JNum 2)])])"
    by (simp add: gate_defs)
  from filter_versions_confined [OF h] h show ?thesis by blast
qed








end
